theory Spec2Isabelle
  imports Main "HOL-Library.Word"
begin

section \<open>The geometric collaborators\<close>

text \<open>
  \<^verbatim>\<open>std::size_t\<close> is an unsigned machine integer; it is taken at 64 bits (LP64).
  Addition, subtraction and multiplication wrap around, comparison is unsigned.
\<close>

type_synonym size_t = "64 word"

text \<open>
  Modelled from the spec: the header \<^verbatim>\<open>rect.hpp\<close> (the classes \<^verbatim>\<open>point\<close>, \<^verbatim>\<open>size\<close> and
  \<^verbatim>\<open>rect\<close>) is not among the sources. The bitmap uses of them only the component
  accessors, the point count and the positivity predicate. A point is a pair of
  coordinates.
\<close>

record point_type =
  point_x :: size_t
  point_y :: size_t

text \<open>
  Modelled from the spec: the size of \<^verbatim>\<open>rect.hpp\<close>, a pair of dimensions.
\<close>

record size_type =
  size_width :: size_t
  size_height :: size_t

text \<open>
  Modelled from the spec: \<^verbatim>\<open>size::point_count()\<close> of \<^verbatim>\<open>rect.hpp\<close> is width times height,
  computed in \<^verbatim>\<open>std::size_t\<close>.
\<close>

definition size_point_count :: "size_type \<Rightarrow> size_t" where
  "size_point_count s = size_width s * size_height s"

text \<open>
  Modelled from the spec: \<^verbatim>\<open>size::is_positive()\<close> of \<^verbatim>\<open>rect.hpp\<close> is true when both
  dimensions are non-negative and representable, with no overflow when they are
  multiplied: on unsigned dimensions it holds always except when width times height
  overflows \<^verbatim>\<open>std::size_t\<close>. Zero dimensions are permitted.
\<close>

definition is_positive :: "size_type \<Rightarrow> bool" where
  "is_positive s =
     (0 \<le> size_width s \<and> 0 \<le> size_height s \<and>
      unat (size_width s) * unat (size_height s) < 2 ^ 64)"

text \<open>
  Modelled from the spec: the rectangle of \<^verbatim>\<open>rect.hpp\<close>, a size plus the point of its
  top-left corner, with the accessors \<^verbatim>\<open>x()\<close>, \<^verbatim>\<open>y()\<close>, \<^verbatim>\<open>width()\<close>, \<^verbatim>\<open>height()\<close>.
\<close>

record rect =
  rect_pos :: point_type
  rect_size :: size_type

definition rect_x :: "rect \<Rightarrow> size_t" where
  "rect_x r = point_x (rect_pos r)"

definition rect_y :: "rect \<Rightarrow> size_t" where
  "rect_y r = point_y (rect_pos r)"

definition rect_width :: "rect \<Rightarrow> size_t" where
  "rect_width r = size_width (rect_size r)"

definition rect_height :: "rect \<Rightarrow> size_t" where
  "rect_height r = size_height (rect_size r)"


section \<open>The bitmap\<close>

text \<open>
  The exceptions of the class are values: \<^verbatim>\<open>std::out_of_range\<close> and \<^verbatim>\<open>std::logic_error\<close>
  (their message strings are left out). \<open>undefined_behaviour\<close> stands for what C++
  leaves undefined: indexing the vector past its end, or copying through a pointer
  that leaves its buffer.
\<close>

datatype error = out_of_range | logic_error | undefined_behaviour

text \<open>
  The two protected members \<^verbatim>\<open>size_\<close> and \<^verbatim>\<open>data_\<close> (a vector). A name cannot end in
  an underscore here, so they are \<open>size_m\<close> and \<open>data_m\<close>.
\<close>

record 'a bitmap =
  size_m :: size_type
  data_m :: "'a list"

definition width :: "'a bitmap \<Rightarrow> size_t" where
  "width G = size_width (size_m G)"

definition height :: "'a bitmap \<Rightarrow> size_t" where
  "height G = size_height (size_m G)"

definition point_count :: "'a bitmap \<Rightarrow> size_t" where
  "point_count G = width G * height G"

definition throw_if_size_is_negative :: "size_type \<Rightarrow> error + unit" where
  "throw_if_size_is_negative s = (if \<not> is_positive s then Inl out_of_range else Inr ())"

subsection \<open>Constructors\<close>

text \<open>\<^verbatim>\<open>bitmap()\<close>: both members default-constructed.\<close>

definition bitmap_default :: "'a bitmap" where
  "bitmap_default = \<lparr>size_m = \<lparr>size_width = 0, size_height = 0\<rparr>, data_m = []\<rparr>"

text \<open>
  \<^verbatim>\<open>bitmap(size, value)\<close>: the members are initialised first, then the body checks the
  size.
\<close>

definition bitmap_fill :: "size_type \<Rightarrow> 'a \<Rightarrow> error + 'a bitmap" where
  "bitmap_fill s v =
     (let G = \<lparr>size_m = s, data_m = replicate (unat (size_point_count s)) v\<rparr>
      in case throw_if_size_is_negative (size_m G) of
           Inl e \<Rightarrow> Inl e
         | Inr _ \<Rightarrow> Inr G)"

text \<open>
  \<^verbatim>\<open>bitmap(size, first, last)\<close>: the iterator range is the list \<open>xs\<close>. A vector never
  holds \<open>2 ^ 64\<close> elements or more, so \<^verbatim>\<open>data_.size()\<close> is compared as a number.
\<close>

definition bitmap_range :: "size_type \<Rightarrow> 'a list \<Rightarrow> error + 'a bitmap" where
  "bitmap_range s xs =
     (let G = \<lparr>size_m = s, data_m = xs\<rparr>
      in case throw_if_size_is_negative (size_m G) of
           Inl e \<Rightarrow> Inl e
         | Inr _ \<Rightarrow>
             if length (data_m G) \<noteq> unat (size_point_count (size_m G)) then Inl logic_error
             else Inr G)"

text \<open>\<^verbatim>\<open>bitmap(width, height, value)\<close>.\<close>

definition bitmap_wh :: "size_t \<Rightarrow> size_t \<Rightarrow> 'a \<Rightarrow> error + 'a bitmap" where
  "bitmap_wh w h v =
     (let s = \<lparr>size_width = w, size_height = h\<rparr>;
          G = \<lparr>size_m = s, data_m = replicate (unat (size_point_count s)) v\<rparr>
      in case throw_if_size_is_negative (size_m G) of
           Inl e \<Rightarrow> Inl e
         | Inr _ \<Rightarrow> Inr G)"

subsection \<open>Iteration\<close>

text \<open>
  The elements met from \<^verbatim>\<open>begin()\<close> to \<^verbatim>\<open>end()\<close>, and from \<^verbatim>\<open>rbegin()\<close> to \<^verbatim>\<open>rend()\<close>:
  the iterators are the vector's own.
\<close>

definition begin_end :: "'a bitmap \<Rightarrow> 'a list" where
  "begin_end G = data_m G"

definition rbegin_rend :: "'a bitmap \<Rightarrow> 'a list" where
  "rbegin_rend G = rev (data_m G)"

subsection \<open>Resize\<close>

text \<open>
  \<^verbatim>\<open>std::vector::resize(n, value)\<close>: a longer vector is cut to its first \<open>n\<close> elements,
  a shorter one gets copies of \<open>value\<close> appended.
\<close>

definition vector_resize :: "nat \<Rightarrow> 'a \<Rightarrow> 'a list \<Rightarrow> 'a list" where
  "vector_resize n v xs =
     (if n \<le> length xs then take n xs else xs @ replicate (n - length xs) v)"

definition resize :: "'a bitmap \<Rightarrow> size_type \<Rightarrow> 'a \<Rightarrow> error + 'a bitmap" where
  "resize G s v =
     (case throw_if_size_is_negative s of
        Inl e \<Rightarrow> Inl e
      | Inr _ \<Rightarrow>
          Inr (G\<lparr>data_m := vector_resize (unat (size_point_count s)) v (data_m G), size_m := s\<rparr>))"

definition resize_wh :: "'a bitmap \<Rightarrow> size_t \<Rightarrow> size_t \<Rightarrow> 'a \<Rightarrow> error + 'a bitmap" where
  "resize_wh G w h v = resize G \<lparr>size_width = w, size_height = h\<rparr> v"

subsection \<open>Element access\<close>

definition data_pos :: "'a bitmap \<Rightarrow> point_type \<Rightarrow> size_t" where
  "data_pos G p = point_y p * width G + point_x p"


definition is_point_in_bitmap :: "'a bitmap \<Rightarrow> point_type \<Rightarrow> bool" where
  "is_point_in_bitmap img p =
     (if point_x p < 0 \<or> point_x p \<ge> width img \<or> point_y p < 0 \<or> point_y p \<ge> height img
      then False else True)"

text \<open>
  The check is compiled in only under \<^verbatim>\<open>DEBUG\<close>; the flag says whether the macro is
  defined.
\<close>

definition throw_if_out_of_range :: "bool \<Rightarrow> 'a bitmap \<Rightarrow> point_type \<Rightarrow> error + unit" where
  "throw_if_out_of_range debug G p =
     (if debug then (if \<not> is_point_in_bitmap G p then Inl out_of_range else Inr ())
      else Inr ())"

text \<open>
  A reference into the vector is the offset of the element it denotes. \<^verbatim>\<open>data_[i]\<close>
  with \<open>i\<close> past the end is undefined.
\<close>

definition do_point :: "'a bitmap \<Rightarrow> point_type \<Rightarrow> error + nat" where
  "do_point G p =
     (let i = unat (data_pos G p)
      in if i < length (data_m G) then Inr i else Inl undefined_behaviour)"

text \<open>\<^verbatim>\<open>operator()(point)\<close> and \<^verbatim>\<open>operator()(x, y)\<close>.\<close>

definition op_call :: "bool \<Rightarrow> 'a bitmap \<Rightarrow> point_type \<Rightarrow> error + nat" where
  "op_call debug G p =
     (case throw_if_out_of_range debug G p of
        Inl e \<Rightarrow> Inl e
      | Inr _ \<Rightarrow> do_point G p)"

definition op_call_xy :: "bool \<Rightarrow> 'a bitmap \<Rightarrow> size_t \<Rightarrow> size_t \<Rightarrow> error + nat" where
  "op_call_xy debug G x y = op_call debug G \<lparr>point_x = x, point_y = y\<rparr>"

text \<open>Reading and assigning through a reference that was obtained from the bitmap.\<close>

definition read_ref :: "'a bitmap \<Rightarrow> nat \<Rightarrow> 'a" where
  "read_ref G i = data_m G ! i"

definition write_ref :: "'a bitmap \<Rightarrow> nat \<Rightarrow> 'a \<Rightarrow> 'a bitmap" where
  "write_ref G i v = G\<lparr>data_m := (data_m G)[i := v]\<rparr>"

text \<open>\<^verbatim>\<open>G(p) = v\<close>: the element write of the public interface.\<close>

definition assign_at :: "bool \<Rightarrow> 'a bitmap \<Rightarrow> point_type \<Rightarrow> 'a \<Rightarrow> error + 'a bitmap" where
  "assign_at debug G p v =
     (case op_call debug G p of
        Inl e \<Rightarrow> Inl e
      | Inr i \<Rightarrow> Inr (write_ref G i v))"

text \<open>\<^verbatim>\<open>v = G(p)\<close>: the element read of the public interface.\<close>

definition value_at :: "bool \<Rightarrow> 'a bitmap \<Rightarrow> point_type \<Rightarrow> error + 'a" where
  "value_at debug G p =
     (case op_call debug G p of
        Inl e \<Rightarrow> Inl e
      | Inr i \<Rightarrow> Inr (read_ref G i))"

subsection \<open>Sub-region extraction\<close>

text \<open>
  \<^verbatim>\<open>std::copy(in, in + n, out)\<close> on two distinct buffers, the pointers given as offsets
  from the start of their buffers (\<^verbatim>\<open>data()\<close> is the start of the buffer, and the null
  pointer for an empty vector, which is the offset 0 of a buffer of length 0). The
  source range and the destination range must lie inside the buffers.
\<close>

definition std_copy :: "'a list \<Rightarrow> nat \<Rightarrow> nat \<Rightarrow> 'a list \<Rightarrow> nat \<Rightarrow> error + 'a list" where
  "std_copy src in_offset n dst out_offset =
     (if in_offset + n \<le> length src \<and> out_offset + n \<le> length dst
      then Inr (take out_offset dst @ take n (drop in_offset src) @ drop (out_offset + n) dst)
      else Inl undefined_behaviour)"

lemma unat_succ_less:
  fixes y y_end :: size_t
  assumes "y < y_end"
  shows "unat (y + 1) = Suc (unat y)"
proof -
  from assms have "unat y < unat y_end"
    by (simp add: word_less_nat_alt)
  moreover have "unat y_end < 2 ^ 64"
    using unsigned_less [of y_end] by simp
  ultimately have "unat y + unat (1::size_t) < 2 ^ LENGTH(64)"
    by simp
  then have "unat (y + 1) = unat y + unat (1::size_t)"
    by (simp only: unat_add_lem)
  then show ?thesis by simp
qed

lemma copy_rows_measure:
  fixes y y_end :: size_t
  assumes "y < y_end"
  shows "unat y_end - unat (y + 1) < unat y_end - unat y"
  using assms unat_succ_less [OF assms] by (simp add: word_less_nat_alt)

text \<open>
  The loop \<^verbatim>\<open>for(std::size_t y = 0; y < y_end; ++y)\<close> of \<^verbatim>\<open>subbitmap\<close>, from the row
  \<open>y\<close> on: \<^verbatim>\<open>in_offset\<close> is \<^verbatim>\<open>data() + y * width()\<close> and \<^verbatim>\<open>out_offset\<close> is
  \<^verbatim>\<open>result.data() + y * result.width()\<close>.
\<close>

function copy_rows ::
  "'a bitmap \<Rightarrow> 'a bitmap \<Rightarrow> size_t \<Rightarrow> size_t \<Rightarrow> size_t \<Rightarrow> error + 'a bitmap" where
  "copy_rows G result x_end y_end y =
     (if y < y_end then
        (case std_copy (data_m G) (unat (y * width G)) (unat x_end)
                (data_m result) (unat (y * width result)) of
           Inl e \<Rightarrow> Inl e
         | Inr d \<Rightarrow> copy_rows G (result\<lparr>data_m := d\<rparr>) x_end y_end (y + 1))
      else Inr result)"
  by pat_completeness auto
termination
  by (relation "measure (\<lambda>(G, result, x_end, y_end, y). unat y_end - unat y)")
     (auto simp: copy_rows_measure)

declare copy_rows.simps [simp del]

definition subbitmap :: "'a bitmap \<Rightarrow> rect \<Rightarrow> 'a \<Rightarrow> error + 'a bitmap" where
  "subbitmap G r v =
     (case bitmap_fill (rect_size r) v of
        Inl e \<Rightarrow> Inl e
      | Inr result \<Rightarrow>
          if width G \<le> rect_x r \<or> height G \<le> rect_y r then Inr result
          else
            let x_end = min (rect_width r) (width G - rect_x r);
                y_end = min (rect_height r) (height G - rect_y r)
            in copy_rows G result x_end y_end 0)"

subsection \<open>Objects in a store\<close>

text \<open>
  Every bitmap object owns its vector. To speak about aliasing, the live objects are
  listed in a store and the address of an object is its position there; a new object
  is put behind the others. A raw pointer into the vector of an object is the address
  of the object and an offset.
\<close>

type_synonym 'a store = "'a bitmap list"

definition std_copy_st ::
  "'a store \<Rightarrow> nat \<Rightarrow> nat \<Rightarrow> nat \<Rightarrow> nat \<Rightarrow> nat \<Rightarrow> error + 'a store" where
  "std_copy_st st a_in in_offset n a_out out_offset =
     (case std_copy (data_m (st ! a_in)) in_offset n (data_m (st ! a_out)) out_offset of
        Inl e \<Rightarrow> Inl e
      | Inr d \<Rightarrow> Inr (st[a_out := (st ! a_out)\<lparr>data_m := d\<rparr>]))"

text \<open>The loop of \<^verbatim>\<open>subbitmap\<close> again, now writing through the pointers.\<close>

function copy_rows_st ::
  "'a store \<Rightarrow> nat \<Rightarrow> nat \<Rightarrow> size_t \<Rightarrow> size_t \<Rightarrow> size_t \<Rightarrow> error + 'a store" where
  "copy_rows_st st src res x_end y_end y =
     (if y < y_end then
        (case std_copy_st st src (unat (y * width (st ! src))) (unat x_end)
                res (unat (y * width (st ! res))) of
           Inl e \<Rightarrow> Inl e
         | Inr st' \<Rightarrow> copy_rows_st st' src res x_end y_end (y + 1))
      else Inr st)"
  by pat_completeness auto
termination
  by (relation "measure (\<lambda>(st, src, res, x_end, y_end, y). unat y_end - unat y)")
     (auto simp: copy_rows_measure)

declare copy_rows_st.simps [simp del]

text \<open>
  \<^verbatim>\<open>subbitmap\<close> called on the object at the address \<open>src\<close>: the local object
  \<^verbatim>\<open>result\<close> is constructed at a new address, which is returned with the store.
\<close>

definition subbitmap_st :: "'a store \<Rightarrow> nat \<Rightarrow> rect \<Rightarrow> 'a \<Rightarrow> error + 'a store \<times> nat" where
  "subbitmap_st st src r v =
     (if \<not> src < length st then Inl undefined_behaviour
      else
        case bitmap_fill (rect_size r) v of
          Inl e \<Rightarrow> Inl e
        | Inr result \<Rightarrow>
            let res = length st; st1 = st @ [result]
            in if width (st1 ! src) \<le> rect_x r \<or> height (st1 ! src) \<le> rect_y r
               then Inr (st1, res)
               else
                 let x_end = min (rect_width r) (width (st1 ! src) - rect_x r);
                     y_end = min (rect_height r) (height (st1 ! src) - rect_y r)
                 in (case copy_rows_st st1 src res x_end y_end 0 of
                       Inl e \<Rightarrow> Inl e
                     | Inr st2 \<Rightarrow> Inr (st2, res)))"

text \<open>An element write to the object at the address \<open>a\<close>.\<close>

definition assign_at_st ::
  "bool \<Rightarrow> 'a store \<Rightarrow> nat \<Rightarrow> point_type \<Rightarrow> 'a \<Rightarrow> error + 'a store" where
  "assign_at_st debug st a p v =
     (if \<not> a < length st then Inl undefined_behaviour
      else
        case assign_at debug (st ! a) p v of
          Inl e \<Rightarrow> Inl e
        | Inr G \<Rightarrow> Inr (st[a := G]))"


section \<open>Notions used by the properties\<close>



text \<open>
  The grids reachable through the public interface: the default constructor, the three
  constructors that take a size, \<^verbatim>\<open>resize\<close>, element writes (through \<^verbatim>\<open>operator()\<close>, or
  through an iterator or the \<^verbatim>\<open>data()\<close> pointer at a position inside the storage), and
  \<^verbatim>\<open>subbitmap\<close>, each having completed without error.
\<close>

inductive reachable :: "'a bitmap \<Rightarrow> bool" where
  by_default: "reachable bitmap_default"
| by_fill: "bitmap_fill s v = Inr G \<Longrightarrow> reachable G"
| by_range: "bitmap_range s xs = Inr G \<Longrightarrow> reachable G"
| by_wh: "bitmap_wh w h v = Inr G \<Longrightarrow> reachable G"
| by_resize: "reachable G \<Longrightarrow> resize G s v = Inr G' \<Longrightarrow> reachable G'"
| by_resize_wh: "reachable G \<Longrightarrow> resize_wh G w h v = Inr G' \<Longrightarrow> reachable G'"
| by_assign: "reachable G \<Longrightarrow> assign_at debug G p v = Inr G' \<Longrightarrow> reachable G'"
| by_write: "reachable G \<Longrightarrow> i < length (data_m G) \<Longrightarrow> reachable (write_ref G i v)"
| by_subbitmap: "reachable G \<Longrightarrow> subbitmap G r v = Inr R \<Longrightarrow> reachable R"

text \<open>
  The storage has as many elements as \<^verbatim>\<open>width() * height()\<close> says, the product being
  computed in \<^verbatim>\<open>std::size_t\<close> as \<^verbatim>\<open>point_count()\<close> computes it.
\<close>

definition data_matches_size :: "'a bitmap \<Rightarrow> bool" where
  "data_matches_size G =
     (length (data_m G) = unat (width G * height G) \<and> point_count G = width G * height G)"


section \<open>Constructors\<close>

lemma throw_if_size_is_negative_ok:
  "is_positive s \<Longrightarrow> throw_if_size_is_negative s = Inr ()"
  by (simp add: throw_if_size_is_negative_def)

lemma throw_if_size_is_negative_error:
  "throw_if_size_is_negative s = Inl e \<Longrightarrow> e = out_of_range"
  by (simp add: throw_if_size_is_negative_def split: if_splits)

text \<open>
  C4: for every valid size and every sequence of exactly \<open>point_count\<close> elements, the
  constructor from a size and a sequence succeeds, and the traversal from \<^verbatim>\<open>begin()\<close> to
  \<^verbatim>\<open>end()\<close> gives the sequence back, element by element.
\<close>

theorem bitmap_range_round_trip:
  assumes "is_positive s" and "length xs = unat (size_point_count s)"
  shows "\<exists>G. bitmap_range s xs = Inr G \<and> size_m G = s \<and> begin_end G = xs \<and>
           length (begin_end G) = length xs \<and>
           (\<forall>i<length xs. begin_end G ! i = xs ! i)"
  using assms
  by (simp add: bitmap_range_def Let_def throw_if_size_is_negative_ok begin_end_def)

theorem bitmap_range_round_trip_witness:
  "let s = \<lparr>size_width = 2, size_height = 2\<rparr>; xs = [1, 2, 3, 4 :: int]
   in (is_positive s \<and> length xs = unat (size_point_count s)) \<and>
      bitmap_range s xs = Inr \<lparr>size_m = s, data_m = xs\<rparr> \<and>
      begin_end \<lparr>size_m = s, data_m = xs\<rparr> = xs"
proof -
  define s where "s = \<lparr>size_width = 2 :: size_t, size_height = 2 :: size_t\<rparr>"
  define xs where "xs = [1, 2, 3, 4 :: int]"
  have h1: "is_positive s"
    by (simp add: s_def is_positive_def)
  have h2: "length xs = unat (size_point_count s)"
    by (simp add: s_def xs_def size_point_count_def)
  from bitmap_range_round_trip [OF h1 h2] obtain G
    where "bitmap_range s xs = Inr G" "size_m G = s" "begin_end G = xs"
    by blast
  then have "bitmap_range s xs = Inr \<lparr>size_m = s, data_m = xs\<rparr> \<and>
      begin_end \<lparr>size_m = s, data_m = xs\<rparr> = xs"
    by (simp add: begin_end_def)
  with h1 h2 show ?thesis
    unfolding s_def xs_def Let_def by blast
qed

lemma std_copy_error: "std_copy src i n dst j = Inl e \<Longrightarrow> e = undefined_behaviour"
  by (simp add: std_copy_def split: if_splits)

lemma copy_rows_error:
  "copy_rows G result x_end y_end y = Inl e \<Longrightarrow> e = undefined_behaviour"
proof (induction G result x_end y_end y rule: copy_rows.induct)
  case (1 G result x_end y_end y)
  show ?case
  proof (cases "y < y_end")
    case True
    show ?thesis
    proof (cases "std_copy (data_m G) (unat (y * width G)) (unat x_end)
                (data_m result) (unat (y * width result))")
      case (Inl e')
      with True "1.prems" have "e = e'"
        by (simp add: copy_rows.simps [of G result])
      with Inl show ?thesis
        by (simp add: std_copy_error)
    next
      case (Inr d)
      with True "1.prems"
      have "copy_rows G (result\<lparr>data_m := d\<rparr>) x_end y_end (y + 1) = Inl e"
        by (simp add: copy_rows.simps [of G result])
      with "1.IH" [OF True Inr] show ?thesis .
    qed
  next
    case False
    with "1.prems" show ?thesis
      by (simp add: copy_rows.simps [of G result])
  qed
qed

lemma bitmap_fill_error: "bitmap_fill s v = Inl e \<Longrightarrow> e = out_of_range"
  by (auto simp: bitmap_fill_def Let_def split: sum.splits dest: throw_if_size_is_negative_error)

lemma subbitmap_error:
  "subbitmap G r v = Inl e \<Longrightarrow> e = out_of_range \<or> e = undefined_behaviour"
  by (auto simp: subbitmap_def Let_def split: sum.splits if_splits
      dest: bitmap_fill_error copy_rows_error)

lemma op_call_error:
  "op_call debug G p = Inl e \<Longrightarrow> e = out_of_range \<or> e = undefined_behaviour"
  by (auto simp: op_call_def throw_if_out_of_range_def do_point_def Let_def
      split: sum.splits if_splits)

text \<open>
  C5: for every valid size, the constructor from a size and a sequence fails with
  \<^verbatim>\<open>std::logic_error\<close> if and only if the number of elements differs from the point
  count of the size, and then no grid is produced. No other constructor and no other
  operation raises \<^verbatim>\<open>std::logic_error\<close>; the default, copy and move constructors
  raise nothing at all.
\<close>

theorem shape_mismatch_only_from_range:
  "(is_positive s \<longrightarrow>
      (bitmap_range s xs = Inl logic_error) = (length xs \<noteq> unat (size_point_count s))) \<and>
   (is_positive s \<and> length xs \<noteq> unat (size_point_count s) \<longrightarrow>
      (\<forall>G. bitmap_range s xs \<noteq> Inr G)) \<and>
   bitmap_fill s v \<noteq> Inl logic_error \<and>
   bitmap_wh w h v \<noteq> Inl logic_error \<and>
   resize G s v \<noteq> Inl logic_error \<and>
   resize_wh G w h v \<noteq> Inl logic_error \<and>
   op_call debug G p \<noteq> Inl logic_error \<and>
   op_call_xy debug G x y \<noteq> Inl logic_error \<and>
   assign_at debug G p v \<noteq> Inl logic_error \<and>
   value_at debug G p \<noteq> Inl logic_error \<and>
   subbitmap G r v \<noteq> Inl logic_error"
proof (intro conjI impI)
  assume "is_positive s"
  then show "(bitmap_range s xs = Inl logic_error) = (length xs \<noteq> unat (size_point_count s))"
    by (simp add: bitmap_range_def Let_def throw_if_size_is_negative_ok)
next
  assume "is_positive s \<and> length xs \<noteq> unat (size_point_count s)"
  then show "\<forall>G. bitmap_range s xs \<noteq> Inr G"
    by (simp add: bitmap_range_def Let_def throw_if_size_is_negative_ok)
next
  show "bitmap_fill s v \<noteq> Inl logic_error"
    using bitmap_fill_error [of s v logic_error] by auto
  show "bitmap_wh w h v \<noteq> Inl logic_error"
    by (auto simp: bitmap_wh_def Let_def split: sum.splits dest: throw_if_size_is_negative_error)
  show r: "resize G s v \<noteq> Inl logic_error" for s
    by (auto simp: resize_def split: sum.splits dest: throw_if_size_is_negative_error)
  show "resize_wh G w h v \<noteq> Inl logic_error"
    unfolding resize_wh_def by (rule r)
  show c: "op_call debug G p \<noteq> Inl logic_error" for p
    using op_call_error [of debug G p logic_error] by auto
  show "op_call_xy debug G x y \<noteq> Inl logic_error"
    unfolding op_call_xy_def by (rule c)
  show "assign_at debug G p v \<noteq> Inl logic_error"
    using c [of p] by (auto simp: assign_at_def split: sum.splits)
  show "value_at debug G p \<noteq> Inl logic_error"
    using c [of p] by (auto simp: value_at_def split: sum.splits)
  show "subbitmap G r v \<noteq> Inl logic_error"
    using subbitmap_error [of G r v logic_error] by auto
qed

theorem shape_mismatch_only_from_range_witness:
  "let s = \<lparr>size_width = 2, size_height = 2\<rparr>; xs = [1, 2, 3 :: int]
   in (is_positive s \<and> length xs \<noteq> unat (size_point_count s)) \<and>
      bitmap_range s xs = Inl logic_error"
proof -
  define s where "s = \<lparr>size_width = 2 :: size_t, size_height = 2 :: size_t\<rparr>"
  define xs where "xs = [1, 2, 3 :: int]"
  have h1: "is_positive s"
    by (simp add: s_def is_positive_def)
  have h2: "length xs \<noteq> unat (size_point_count s)"
    by (simp add: s_def xs_def size_point_count_def)
  from shape_mismatch_only_from_range [of s xs, THEN conjunct1] h1 h2
  have "bitmap_range s xs = Inl logic_error"
    by simp
  with h1 h2 show ?thesis
    unfolding s_def xs_def Let_def by blast
qed


section \<open>Resize\<close>

lemma length_vector_resize: "length (vector_resize n v xs) = n"
  by (simp add: vector_resize_def)

lemma vector_resize_old:
  "i < n \<Longrightarrow> i < length xs \<Longrightarrow> vector_resize n v xs ! i = xs ! i"
  by (simp add: vector_resize_def nth_append)

lemma vector_resize_new:
  "length xs \<le> i \<Longrightarrow> i < n \<Longrightarrow> vector_resize n v xs ! i = v"
  by (simp add: vector_resize_def nth_append)

lemma resize_valid:
  "is_positive s \<Longrightarrow>
   resize G s v =
     Inr (G\<lparr>data_m := vector_resize (unat (size_point_count s)) v (data_m G), size_m := s\<rparr>)"
  by (simp add: resize_def throw_if_size_is_negative_ok)

text \<open>
  C2 says that after \<^verbatim>\<open>resize(s, v)\<close> every element equals \<open>v\<close>. It does not hold: a
  grid of one element 7, resized to two elements with the fill value 0, keeps the 7 at
  the offset 0.
\<close>

theorem resize_not_destructive:
  "is_positive \<lparr>size_width = 1, size_height = 2\<rparr> \<and>
   resize \<lparr>size_m = \<lparr>size_width = 1, size_height = 1\<rparr>, data_m = [7 :: int]\<rparr>
       \<lparr>size_width = 1, size_height = 2\<rparr> 0
     = Inr \<lparr>size_m = \<lparr>size_width = 1, size_height = 2\<rparr>, data_m = [7, 0]\<rparr> \<and>
   read_ref \<lparr>size_m = \<lparr>size_width = 1, size_height = 2\<rparr>, data_m = [7, 0 :: int]\<rparr> 0 \<noteq> 0"
  by (simp add: is_positive_def resize_def throw_if_size_is_negative_def size_point_count_def
      vector_resize_def read_ref_def)

text \<open>
  C2, as amended: for every grid, every valid size \<open>s\<close> and every fill value \<open>v\<close>,
  \<^verbatim>\<open>resize(s, v)\<close> completes, the size is \<open>s\<close>, \<open>point_count()\<close> is the point count of
  \<open>s\<close>, the storage holds that many elements, every element at an offset at or
  beyond the old length of the storage equals \<open>v\<close>, and every element at an offset
  below the old length keeps the value it had.
\<close>

theorem resize_fills_new_cells:
  assumes "is_positive s"
  shows "\<exists>G'. resize G s v = Inr G' \<and> size_m G' = s \<and>
           point_count G' = size_point_count s \<and>
           length (data_m G') = unat (size_point_count s) \<and>
           (\<forall>i. length (data_m G) \<le> i \<and> i < length (data_m G') \<longrightarrow> data_m G' ! i = v) \<and>
           (\<forall>i. i < length (data_m G) \<and> i < length (data_m G') \<longrightarrow>
              data_m G' ! i = data_m G ! i)"
  using assms
  by (simp add: resize_valid point_count_def width_def height_def size_point_count_def
      length_vector_resize vector_resize_new vector_resize_old)

theorem resize_fills_new_cells_witness:
  "let G = \<lparr>size_m = \<lparr>size_width = 1, size_height = 1\<rparr>, data_m = [7 :: int]\<rparr>;
       s = \<lparr>size_width = 1, size_height = 2\<rparr>
   in is_positive s \<and>
      (\<exists>G'. resize G s 0 = Inr G' \<and> size_m G' = s \<and> point_count G' = 2 \<and>
         length (data_m G') = 2 \<and> data_m G' ! 1 = 0 \<and> data_m G' ! 0 = 7)"
proof -
  define G where "G = \<lparr>size_m = \<lparr>size_width = 1, size_height = 1\<rparr>, data_m = [7 :: int]\<rparr>"
  define s where "s = \<lparr>size_width = 1 :: size_t, size_height = 2 :: size_t\<rparr>"
  have h: "is_positive s"
    by (simp add: s_def is_positive_def)
  have e: "size_point_count s = 2" "length (data_m G) = 1" "data_m G ! 0 = 7"
    by (simp_all add: s_def G_def size_point_count_def)
  from resize_fills_new_cells [OF h, of G 0] obtain G' where
    r: "resize G s 0 = Inr G'" "size_m G' = s" "point_count G' = size_point_count s"
      "length (data_m G') = unat (size_point_count s)"
    and new: "\<forall>i. length (data_m G) \<le> i \<and> i < length (data_m G') \<longrightarrow> data_m G' ! i = 0"
    and old: "\<forall>i. i < length (data_m G) \<and> i < length (data_m G') \<longrightarrow>
              data_m G' ! i = data_m G ! i"
    by blast
  from r e have l: "length (data_m G') = 2"
    by simp
  with new e have "data_m G' ! 1 = 0"
    by simp
  moreover from old l e have "data_m G' ! 0 = 7"
    by simp
  ultimately have "\<exists>G'. resize G s 0 = Inr G' \<and> size_m G' = s \<and> point_count G' = 2 \<and>
         length (data_m G') = 2 \<and> data_m G' ! 1 = 0 \<and> data_m G' ! 0 = 7"
    using r e l by auto
  with h show ?thesis
    unfolding G_def s_def Let_def by blast
qed

text \<open>
  C10: for every grid with the old point count \<open>n\<close> (the length of its storage), every
  valid size with the point count \<open>m\<close> and every fill value \<open>v\<close>, \<^verbatim>\<open>resize\<close> completes,
  the elements at the offsets below \<open>min n m\<close> keep their values, and the elements at
  the offsets from \<open>n\<close> to \<open>m - 1\<close> equal \<open>v\<close>.
\<close>

theorem resize_keeps_prefix:
  assumes "is_positive s" and "length (data_m G) = unat (point_count G)"
  shows "\<exists>G'. resize G s v = Inr G' \<and>
           length (data_m G') = unat (size_point_count s) \<and>
           (\<forall>i < min (unat (point_count G)) (unat (size_point_count s)).
              data_m G' ! i = data_m G ! i) \<and>
           (\<forall>i. unat (point_count G) \<le> i \<and> i < unat (size_point_count s) \<longrightarrow>
              data_m G' ! i = v)"
  using assms
  by (simp add: resize_valid length_vector_resize vector_resize_new vector_resize_old)

theorem resize_keeps_prefix_witness:
  "let G = \<lparr>size_m = \<lparr>size_width = 1, size_height = 2\<rparr>, data_m = [7, 8 :: int]\<rparr>;
       s = \<lparr>size_width = 3, size_height = 1\<rparr>
   in (is_positive s \<and> length (data_m G) = unat (point_count G)) \<and>
      (\<exists>G'. resize G s 0 = Inr G' \<and> length (data_m G') = 3 \<and>
         data_m G' ! 0 = 7 \<and> data_m G' ! 1 = 8 \<and> data_m G' ! 2 = 0)"
proof -
  define G where "G = \<lparr>size_m = \<lparr>size_width = 1, size_height = 2\<rparr>, data_m = [7, 8 :: int]\<rparr>"
  define s where "s = \<lparr>size_width = 3 :: size_t, size_height = 1 :: size_t\<rparr>"
  have h1: "is_positive s"
    by (simp add: s_def is_positive_def)
  have h2: "length (data_m G) = unat (point_count G)"
    by (simp add: G_def point_count_def width_def height_def)
  have e: "unat (size_point_count s) = 3" "unat (point_count G) = 2"
    "data_m G ! 0 = 7" "data_m G ! 1 = 8"
    by (simp_all add: s_def G_def size_point_count_def point_count_def width_def height_def)
  from resize_keeps_prefix [OF h1 h2, of 0] obtain G' where
    r: "resize G s 0 = Inr G'" "length (data_m G') = unat (size_point_count s)"
    and old: "\<forall>i < min (unat (point_count G)) (unat (size_point_count s)).
              data_m G' ! i = data_m G ! i"
    and new: "\<forall>i. unat (point_count G) \<le> i \<and> i < unat (size_point_count s) \<longrightarrow>
              data_m G' ! i = 0"
    by blast
  from old e have "data_m G' ! 0 = 7" "data_m G' ! 1 = 8"
    by simp_all
  moreover from new e have "data_m G' ! 2 = 0"
    by simp
  ultimately have "\<exists>G'. resize G s 0 = Inr G' \<and> length (data_m G') = 3 \<and>
         data_m G' ! 0 = 7 \<and> data_m G' ! 1 = 8 \<and> data_m G' ! 2 = 0"
    using r e by auto
  with h1 h2 show ?thesis
    unfolding G_def s_def Let_def by blast
qed


section \<open>Sub-region extraction\<close>

lemma bitmap_fill_valid:
  "is_positive s \<Longrightarrow>
   bitmap_fill s v = Inr \<lparr>size_m = s, data_m = replicate (unat (size_point_count s)) v\<rparr>"
  by (simp add: bitmap_fill_def Let_def throw_if_size_is_negative_ok)

text \<open>
  C3 says that \<^verbatim>\<open>subbitmap\<close> does not fail for any rectangle whose origin lies outside
  the source. It does not hold: the result is constructed from the size of the
  rectangle before anything else, through the validity check of the constructor. For
  the rectangle at (1, 0) of the size \<open>2 ^ 32\<close> by \<open>2 ^ 32\<close>, whose point count
  overflows, and a grid of one element, the call raises \<^verbatim>\<open>std::out_of_range\<close>.
\<close>

theorem subbitmap_outside_invalid_size:
  "let G = \<lparr>size_m = \<lparr>size_width = 1, size_height = 1\<rparr>, data_m = [0 :: int]\<rparr>;
       r = \<lparr>rect_pos = \<lparr>point_x = 1, point_y = 0\<rparr>,
            rect_size = \<lparr>size_width = 4294967296, size_height = 4294967296\<rparr>\<rparr>
   in (width G \<le> rect_x r \<or> height G \<le> rect_y r) \<and>
      subbitmap G r 7 = Inl out_of_range"
  by (simp add: Let_def width_def rect_x_def subbitmap_def bitmap_fill_def
      throw_if_size_is_negative_def is_positive_def)

text \<open>
  C3, as amended: for every source grid, fill value and rectangle of a valid size whose
  origin lies outside the grid (\<open>rect.x() \<ge> width\<close> or \<open>rect.y() \<ge> height\<close>),
  \<^verbatim>\<open>subbitmap\<close> does not fail and returns a grid of the size of the rectangle in which
  every element is the fill value.
\<close>

theorem subbitmap_outside:
  assumes "is_positive (rect_size r)"
    and "width G \<le> rect_x r \<or> height G \<le> rect_y r"
  shows "\<exists>R. subbitmap G r v = Inr R \<and> size_m R = rect_size r \<and>
           length (data_m R) = unat (size_point_count (rect_size r)) \<and>
           (\<forall>i<length (data_m R). data_m R ! i = v)"
proof -
  from assms(1) have "bitmap_fill (rect_size r) v =
      Inr \<lparr>size_m = rect_size r, data_m = replicate (unat (size_point_count (rect_size r))) v\<rparr>"
    by (rule bitmap_fill_valid)
  with assms(2) show ?thesis
    by (auto simp: subbitmap_def)
qed

theorem subbitmap_outside_witness:
  "let G = \<lparr>size_m = \<lparr>size_width = 3, size_height = 2\<rparr>, data_m = [0, 5, 0, 0, 0, 9 :: int]\<rparr>;
       r = \<lparr>rect_pos = \<lparr>point_x = 3, point_y = 0\<rparr>,
            rect_size = \<lparr>size_width = 2, size_height = 1\<rparr>\<rparr>
   in (is_positive (rect_size r) \<and> (width G \<le> rect_x r \<or> height G \<le> rect_y r)) \<and>
      (\<exists>R. subbitmap G r (- 1) = Inr R \<and> size_m R = \<lparr>size_width = 2, size_height = 1\<rparr> \<and>
         length (data_m R) = 2 \<and> data_m R ! 0 = - 1 \<and> data_m R ! 1 = - 1)"
proof -
  define G where "G = \<lparr>size_m = \<lparr>size_width = 3, size_height = 2\<rparr>, data_m = [0, 5, 0, 0, 0, 9 :: int]\<rparr>"
  define r where "r = \<lparr>rect_pos = \<lparr>point_x = 3 :: size_t, point_y = 0 :: size_t\<rparr>,
            rect_size = \<lparr>size_width = 2 :: size_t, size_height = 1 :: size_t\<rparr>\<rparr>"
  have h1: "is_positive (rect_size r)"
    by (simp add: r_def is_positive_def)
  have h2: "width G \<le> rect_x r \<or> height G \<le> rect_y r"
    by (simp add: G_def r_def width_def rect_x_def)
  have e: "rect_size r = \<lparr>size_width = 2, size_height = 1\<rparr>"
    "unat (size_point_count (rect_size r)) = 2"
    by (simp_all add: r_def size_point_count_def)
  from subbitmap_outside [OF h1 h2, of "- 1"] e
  have "\<exists>R. subbitmap G r (- 1) = Inr R \<and> size_m R = \<lparr>size_width = 2, size_height = 1\<rparr> \<and>
         length (data_m R) = 2 \<and> data_m R ! 0 = - 1 \<and> data_m R ! 1 = - 1"
    by auto
  with h1 h2 show ?thesis
    unfolding G_def r_def Let_def by blast
qed

text \<open>
  C1 says that for a rectangle inside the source the result holds at \<open>(i, j)\<close> the
  source element at \<open>(rect.x() + i, rect.y() + j)\<close>. The loop reads each row from
  \<^verbatim>\<open>data() + y * width()\<close>, the left edge of the source row \<open>y\<close>, so on the 3 by 2
  grid with the rows 0 5 0 and 0 0 9 the rectangle at (1, 0) of size 2 by 2, which
  lies inside the grid, yields the rows 0 5 and 0 0: the result holds at (0, 0) the
  source element at (0, 0), which is 0, and not the one at (1, 0), which is 5.
\<close>

lemma word_small_facts:
  "\<not> (3 :: size_t) \<le> 1" "\<not> (2 :: size_t) \<le> 1" "(0 :: size_t) < 1" "(0 :: size_t) < 2"
  "(1 :: size_t) < 2" "\<not> (2 :: size_t) < 2" "\<not> (1 :: size_t) < 1" "(1 :: size_t) + 1 = 2"
  "\<not> (1 :: size_t) \<le> 0" "\<not> (2 :: size_t) \<le> 0" "\<not> (3 :: size_t) \<le> 0"
  by (simp_all add: word_le_nat_alt word_less_nat_alt)

theorem subbitmap_copies_from_top_left:
  "let G = \<lparr>size_m = \<lparr>size_width = 3, size_height = 2\<rparr>, data_m = [0, 5, 0, 0, 0, 9 :: int]\<rparr>;
       r = \<lparr>rect_pos = \<lparr>point_x = 1, point_y = 0\<rparr>,
            rect_size = \<lparr>size_width = 2, size_height = 2\<rparr>\<rparr>;
       R = \<lparr>size_m = \<lparr>size_width = 2, size_height = 2\<rparr>, data_m = [0, 5, 0, 0 :: int]\<rparr>
   in rect_x r + rect_width r \<le> width G \<and> rect_y r + rect_height r \<le> height G \<and>
      subbitmap G r (- 1) = Inr R \<and>
      value_at True R \<lparr>point_x = 0, point_y = 0\<rparr> = Inr 0 \<and>
      value_at True G \<lparr>point_x = rect_x r + 0, point_y = rect_y r + 0\<rparr> = Inr 5"
  by (simp add: Let_def rect_x_def rect_y_def rect_width_def rect_height_def width_def
      height_def subbitmap_def bitmap_fill_def throw_if_size_is_negative_def is_positive_def
      size_point_count_def copy_rows.simps std_copy_def value_at_def op_call_def
      throw_if_out_of_range_def is_point_in_bitmap_def do_point_def data_pos_def read_ref_def
      word_small_facts)


section \<open>The storage invariant\<close>

lemma std_copy_length: "std_copy src i n dst j = Inr d \<Longrightarrow> length d = length dst"
  by (auto simp: std_copy_def split: if_splits)

lemma copy_rows_shape:
  "copy_rows G result x_end y_end y = Inr R \<Longrightarrow>
   size_m R = size_m result \<and> length (data_m R) = length (data_m result)"
proof (induction G result x_end y_end y rule: copy_rows.induct)
  case (1 G result x_end y_end y)
  show ?case
  proof (cases "y < y_end")
    case True
    show ?thesis
    proof (cases "std_copy (data_m G) (unat (y * width G)) (unat x_end)
                (data_m result) (unat (y * width result))")
      case (Inl e)
      with True "1.prems" show ?thesis
        by (simp add: copy_rows.simps [of G result])
    next
      case (Inr d)
      with True "1.prems"
      have "copy_rows G (result\<lparr>data_m := d\<rparr>) x_end y_end (y + 1) = Inr R"
        by (simp add: copy_rows.simps [of G result])
      with "1.IH" [OF True Inr] std_copy_length [OF Inr] show ?thesis
        by simp
    qed
  next
    case False
    with "1.prems" show ?thesis
      by (simp add: copy_rows.simps [of G result])
  qed
qed

lemma bitmap_fill_shape:
  "bitmap_fill s v = Inr G \<Longrightarrow> data_matches_size G"
  by (auto simp: bitmap_fill_def Let_def data_matches_size_def point_count_def width_def
      height_def size_point_count_def split: sum.splits)

lemma resize_shape: "resize G s v = Inr G' \<Longrightarrow> data_matches_size G'"
  by (auto simp: resize_def data_matches_size_def point_count_def width_def height_def
      size_point_count_def length_vector_resize split: sum.splits)

lemma assign_at_shape:
  "data_matches_size G \<Longrightarrow> assign_at debug G p v = Inr G' \<Longrightarrow> data_matches_size G'"
  by (auto simp: assign_at_def write_ref_def data_matches_size_def point_count_def width_def
      height_def split: sum.splits)

lemma subbitmap_shape: "subbitmap G r v = Inr R \<Longrightarrow> data_matches_size R"
proof -
  assume a: "subbitmap G r v = Inr R"
  then obtain result where f: "bitmap_fill (rect_size r) v = Inr result"
    by (auto simp: subbitmap_def split: sum.splits)
  from a f have "R = result \<or> (\<exists>xe ye. copy_rows G result xe ye 0 = Inr R)"
    by (auto simp: subbitmap_def Let_def split: if_splits)
  then have "size_m R = size_m result \<and> length (data_m R) = length (data_m result)"
    by (auto dest: copy_rows_shape)
  with bitmap_fill_shape [OF f] show ?thesis
    by (simp add: data_matches_size_def point_count_def width_def height_def)
qed

text \<open>
  C8: for every grid reachable through the public interface, after every public
  operation that completes without error, the length of the owned data sequence equals
  \<^verbatim>\<open>width() * height()\<close>, which is also \<^verbatim>\<open>point_count()\<close>.
\<close>

theorem reachable_data_matches_size:
  assumes "reachable G"
  shows "length (data_m G) = unat (width G * height G) \<and> point_count G = width G * height G"
proof -
  from assms have "data_matches_size G"
  proof (induction rule: reachable.induct)
    case by_default
    show ?case
      by (simp add: data_matches_size_def bitmap_default_def point_count_def width_def height_def)
  next
    case (by_fill s v G)
    then show ?case by (rule bitmap_fill_shape)
  next
    case (by_range s xs G)
    then show ?case
      by (auto simp: bitmap_range_def Let_def data_matches_size_def point_count_def width_def
          height_def size_point_count_def split: sum.splits if_splits)
  next
    case (by_wh w h v G)
    then show ?case
      by (auto simp: bitmap_wh_def Let_def data_matches_size_def point_count_def width_def
          height_def size_point_count_def split: sum.splits)
  next
    case (by_resize G s v G')
    then show ?case by (simp add: resize_shape)
  next
    case (by_resize_wh G w h v G')
    then show ?case by (simp add: resize_wh_def resize_shape)
  next
    case (by_assign G debug p v G')
    then show ?case by (simp add: assign_at_shape)
  next
    case (by_write G i v)
    then show ?case
      by (simp add: write_ref_def data_matches_size_def point_count_def width_def height_def)
  next
    case (by_subbitmap G r v R)
    then show ?case by (simp add: subbitmap_shape)
  qed
  then show ?thesis
    by (simp add: data_matches_size_def)
qed

theorem reachable_data_matches_size_witness:
  "let G = \<lparr>size_m = \<lparr>size_width = 2, size_height = 1\<rparr>, data_m = [7, 3 :: int]\<rparr>
   in reachable G \<and> length (data_m G) = 2 \<and> width G * height G = 2 \<and> point_count G = 2"
proof -
  define G where "G = \<lparr>size_m = \<lparr>size_width = 2, size_height = 1\<rparr>, data_m = [7, 3 :: int]\<rparr>"
  have "replicate 2 (3 :: int) = [3, 3]"
    by (simp add: numeral_2_eq_2)
  then have "bitmap_wh 2 1 (3 :: int)
      = Inr \<lparr>size_m = \<lparr>size_width = 2, size_height = 1\<rparr>, data_m = [3, 3]\<rparr>"
    by (simp add: bitmap_wh_def Let_def throw_if_size_is_negative_def is_positive_def
        size_point_count_def)
  then have r0: "reachable \<lparr>size_m = \<lparr>size_width = 2, size_height = 1\<rparr>, data_m = [3, 3 :: int]\<rparr>"
    by (rule reachable.by_wh)
  have "assign_at True \<lparr>size_m = \<lparr>size_width = 2, size_height = 1\<rparr>, data_m = [3, 3 :: int]\<rparr>
      \<lparr>point_x = 0, point_y = 0\<rparr> 7 = Inr G"
    by (simp add: G_def assign_at_def op_call_def throw_if_out_of_range_def
        is_point_in_bitmap_def do_point_def data_pos_def width_def height_def write_ref_def
        word_small_facts)
  with r0 have h: "reachable G"
    by (rule reachable.by_assign)
  have e: "width G * height G = 2"
    by (simp add: G_def width_def height_def)
  from reachable_data_matches_size [OF h] e
  have "length (data_m G) = 2 \<and> width G * height G = 2 \<and> point_count G = 2"
    by simp
  with h show ?thesis
    unfolding G_def Let_def by blast
qed











section \<open>Offsets and checked access\<close>














section \<open>Sub-region extraction on the store\<close>

lemma copy_rows_st_copy_rows:
  "src < length st \<Longrightarrow> res < length st \<Longrightarrow> src \<noteq> res \<Longrightarrow>
   copy_rows_st st src res x_end y_end y =
     (case copy_rows (st ! src) (st ! res) x_end y_end y of
        Inl e \<Rightarrow> Inl e
      | Inr R \<Rightarrow> Inr (st[res := R]))"
proof (induction st src res x_end y_end y rule: copy_rows_st.induct)
  case (1 st src res x_end y_end y)
  show ?case
  proof (cases "y < y_end")
    case True
    show ?thesis
    proof (cases "std_copy (data_m (st ! src)) (unat (y * width (st ! src))) (unat x_end)
                (data_m (st ! res)) (unat (y * width (st ! res)))")
      case (Inl e)
      with True show ?thesis
        by (simp add: copy_rows_st.simps [of st] copy_rows.simps [of "st ! src"] std_copy_st_def)
    next
      case (Inr d)
      let ?st = "st[res := (st ! res)\<lparr>data_m := d\<rparr>]"
      from Inr have c: "std_copy_st st src (unat (y * width (st ! src))) (unat x_end)
                res (unat (y * width (st ! res))) = Inr ?st"
        by (simp add: std_copy_st_def)
      from "1.prems" have s: "?st ! src = st ! src" "?st ! res = (st ! res)\<lparr>data_m := d\<rparr>"
        and l: "src < length ?st" "res < length ?st"
        by simp_all
      from "1.IH" [OF True c l "1.prems"(3)] s
      have "copy_rows_st ?st src res x_end y_end (y + 1) =
          (case copy_rows (st ! src) ((st ! res)\<lparr>data_m := d\<rparr>) x_end y_end (y + 1) of
             Inl e \<Rightarrow> Inl e
           | Inr R \<Rightarrow> Inr (st[res := R]))"
        by (simp split: sum.splits)
      with True Inr c show ?thesis
        by (simp add: copy_rows_st.simps [of st] copy_rows.simps [of "st ! src" "st ! res"])
    qed
  next
    case False
    with "1.prems" show ?thesis
      by (simp add: copy_rows_st.simps [of st] copy_rows.simps [of "st ! src"])
  qed
qed

lemma subbitmap_st_subbitmap:
  assumes "src < length st"
  shows "subbitmap_st st src r v =
     (case subbitmap (st ! src) r v of
        Inl e \<Rightarrow> Inl e
      | Inr R \<Rightarrow> Inr (st @ [R], length st))"
proof (cases "bitmap_fill (rect_size r) v")
  case (Inl e)
  with assms show ?thesis
    by (simp add: subbitmap_st_def subbitmap_def)
next
  case (Inr result)
  let ?st1 = "st @ [result]"
  from assms have s: "?st1 ! src = st ! src" "?st1 ! length st = result"
    and l: "src < length ?st1" "length st < length ?st1" "src \<noteq> length st"
    by (simp_all add: nth_append)
  have u: "?st1[length st := R] = st @ [R]" for R
    by simp
  show ?thesis
  proof (cases "width (st ! src) \<le> rect_x r \<or> height (st ! src) \<le> rect_y r")
    case True
    with assms Inr s show ?thesis
      by (simp add: subbitmap_st_def subbitmap_def Let_def)
  next
    case False
    let ?xe = "min (rect_width r) (width (st ! src) - rect_x r)"
    let ?ye = "min (rect_height r) (height (st ! src) - rect_y r)"
    from copy_rows_st_copy_rows [OF l, of ?xe ?ye 0] s u
    have "copy_rows_st ?st1 src (length st) ?xe ?ye 0 =
        (case copy_rows (st ! src) result ?xe ?ye 0 of
           Inl e \<Rightarrow> Inl e
         | Inr R \<Rightarrow> Inr (st @ [R]))"
      by (simp split: sum.splits)
    with assms Inr False s show ?thesis
      by (simp add: subbitmap_st_def subbitmap_def Let_def split: sum.splits)
  qed
qed

text \<open>
  C9: for every source grid, rectangle and fill value, a call of \<^verbatim>\<open>subbitmap\<close> that
  returns leaves the source as it was (and every other object too), and the grid it
  returns is a new object with a vector of its own: it holds what the function on
  values computes, an element write to it afterwards does not change the source, and
  an element write to the source does not change it.
\<close>

theorem subbitmap_frame:
  assumes "src < length st" and "subbitmap_st st src r v = Inr (st', res)"
  shows "st' ! src = st ! src \<and>
         (\<forall>a<length st. st' ! a = st ! a) \<and>
         res = length st \<and> res \<noteq> src \<and> length st' = Suc (length st) \<and>
         subbitmap (st ! src) r v = Inr (st' ! res) \<and>
         (\<forall>debug p w st''. assign_at_st debug st' res p w = Inr st'' \<longrightarrow>
            st'' ! src = st ! src) \<and>
         (\<forall>debug p w st''. assign_at_st debug st' src p w = Inr st'' \<longrightarrow>
            st'' ! res = st' ! res)"
proof -
  from assms obtain R where R: "subbitmap (st ! src) r v = Inr R"
    and st': "st' = st @ [R]" and res: "res = length st"
    by (auto simp: subbitmap_st_subbitmap split: sum.splits)
  from assms(1) res have ne: "res \<noteq> src"
    by simp
  from assms(1) st' have old: "\<forall>a<length st. st' ! a = st ! a"
    by (simp add: nth_append)
  from st' res have new: "st' ! res = R"
    by simp
  have w1: "st'' ! src = st ! src"
    if "assign_at_st debug st' res p w = Inr st''" for debug p w st''
  proof -
    from that obtain G where "st'' = st'[res := G]"
      by (auto simp: assign_at_st_def split: if_splits sum.splits)
    with ne old assms(1) show ?thesis
      by simp
  qed
  have w2: "st'' ! res = st' ! res"
    if "assign_at_st debug st' src p w = Inr st''" for debug p w st''
  proof -
    from that obtain G where "st'' = st'[src := G]"
      by (auto simp: assign_at_st_def split: if_splits sum.splits)
    with ne show ?thesis
      by simp
  qed
  from assms(1) old ne res st' R new w1 w2 show ?thesis
    by (intro conjI allI impI) simp_all
qed

theorem subbitmap_frame_witness:
  "let G = \<lparr>size_m = \<lparr>size_width = 2, size_height = 1\<rparr>, data_m = [7, 3 :: int]\<rparr>;
       r = \<lparr>rect_pos = \<lparr>point_x = 0, point_y = 0\<rparr>,
            rect_size = \<lparr>size_width = 1, size_height = 1\<rparr>\<rparr>;
       R = \<lparr>size_m = \<lparr>size_width = 1, size_height = 1\<rparr>, data_m = [7 :: int]\<rparr>;
       p = \<lparr>point_x = 0, point_y = 0\<rparr>
   in (0 < length [G] \<and> subbitmap_st [G] 0 r 0 = Inr ([G, R], 1)) \<and>
      [G, R] ! 0 = [G] ! 0 \<and>
      assign_at_st True [G, R] 1 p 9 = Inr [G, R\<lparr>data_m := [9]\<rparr>] \<and>
      [G, R\<lparr>data_m := [9]\<rparr>] ! 0 = [G] ! 0"
proof -
  define G where "G = \<lparr>size_m = \<lparr>size_width = 2, size_height = 1\<rparr>, data_m = [7, 3 :: int]\<rparr>"
  define r where "r = \<lparr>rect_pos = \<lparr>point_x = 0 :: size_t, point_y = 0 :: size_t\<rparr>,
            rect_size = \<lparr>size_width = 1 :: size_t, size_height = 1 :: size_t\<rparr>\<rparr>"
  define R where "R = \<lparr>size_m = \<lparr>size_width = 1, size_height = 1\<rparr>, data_m = [7 :: int]\<rparr>"
  define p where "p = \<lparr>point_x = 0 :: size_t, point_y = 0 :: size_t\<rparr>"
  have h1: "0 < length [G]"
    by simp
  have "subbitmap G r 0 = Inr R"
    by (simp add: G_def r_def R_def subbitmap_def bitmap_fill_def Let_def
        throw_if_size_is_negative_def is_positive_def size_point_count_def width_def
        height_def rect_x_def rect_y_def rect_width_def rect_height_def copy_rows.simps
        std_copy_def word_small_facts)
  then have h2: "subbitmap_st [G] 0 r 0 = Inr ([G, R], 1)"
    by (simp add: subbitmap_st_subbitmap)
  have a: "assign_at_st True [G, R] 1 p 9 = Inr [G, R\<lparr>data_m := [9]\<rparr>]"
    by (simp add: G_def R_def p_def assign_at_st_def assign_at_def op_call_def
        throw_if_out_of_range_def is_point_in_bitmap_def do_point_def data_pos_def width_def
        height_def write_ref_def word_small_facts)
  from subbitmap_frame [OF h1 h2] a
  have "[G, R] ! 0 = [G] ! 0 \<and> [G, R\<lparr>data_m := [9]\<rparr>] ! 0 = [G] ! 0"
    by blast
  with h1 h2 a show ?thesis
    unfolding G_def r_def R_def p_def Let_def by blast
qed

end
